theory Spec2Isabelle
  imports Main
begin

section \<open>The changed-files check of \<^verbatim>\<open>.github/workflows/check_files_submitted.py\<close>\<close>

text \<open>
  The script runs \<^verbatim>\<open>git diff --name-only origin/<base>...<pr>\<close>, splits the captured
  standard output into lines and exits with status 1 when more than 20 lines came back.
  Everything outside the script is a parameter of the model: the command line as
  \<^verbatim>\<open>argparse\<close> classifies it, and the operating system as a function from the spawned
  command to what \<^verbatim>\<open>subprocess.Popen(...).communicate()\<close> gives back.
\<close>

subsection \<open>Python strings\<close>

text \<open>
  A Python \<^verbatim>\<open>str\<close> is a sequence of Unicode code points. \<^verbatim>\<open>str.splitlines\<close> breaks at
  code points beyond one byte (U+2028, U+2029), so a string is a list of code points, not
  a list of 8-bit characters. \<open>pystr\<close> reads an ASCII literal as such a list.
\<close>

type_synonym py_str = "nat list"

definition pystr :: "string \<Rightarrow> py_str" where
  "pystr s = map of_char s"

text \<open>
  The line boundaries of \<^verbatim>\<open>str.splitlines\<close>: \<^verbatim>\<open>\n\<close>, \<^verbatim>\<open>\v\<close>, \<^verbatim>\<open>\f\<close>, \<^verbatim>\<open>\r\<close>, \<^verbatim>\<open>\x1c\<close>,
  \<^verbatim>\<open>\x1d\<close>, \<^verbatim>\<open>\x1e\<close>, \<^verbatim>\<open>\x85\<close>, U+2028 and U+2029; \<^verbatim>\<open>\r\n\<close> is one boundary.
\<close>

definition LF :: nat where
  "LF = 10"

definition CR :: nat where
  "CR = 13"

definition is_linebreak :: "nat \<Rightarrow> bool" where
  "is_linebreak c \<longleftrightarrow> c \<in> {10, 11, 12, 13, 28, 29, 30, 133, 8232, 8233}"

text \<open>
  \<^verbatim>\<open>s.splitlines()\<close> (no \<^verbatim>\<open>keepends\<close>). The first argument is the line scanned so far.
  Every boundary closes a line, also an empty one; at the end of the string the pending
  line is appended only when it is not empty, so a final boundary opens no further line.
\<close>

fun splitlines_from :: "py_str \<Rightarrow> py_str \<Rightarrow> py_str list" where
  "splitlines_from line [] = (if line = [] then [] else [line])"
| "splitlines_from line [c] = (if is_linebreak c then [line] else [line @ [c]])"
| "splitlines_from line (c # d # cs) =
     (if c = CR \<and> d = LF then line # splitlines_from [] cs
      else if is_linebreak c then line # splitlines_from [] (d # cs)
      else splitlines_from (line @ [c]) (d # cs))"

definition splitlines :: "py_str \<Rightarrow> py_str list" where
  "splitlines s = splitlines_from [] s"

subsection \<open>The process and its surroundings\<close>

text \<open>
  What the script does to the outside: the text it prints on standard output, and the
  commands it hands to \<^verbatim>\<open>subprocess.Popen\<close>, in order.
\<close>

record world =
  stdout :: py_str
  popen_calls :: "py_str list list"

definition init_world :: world where
  "init_world = \<lparr>stdout = [], popen_calls = []\<rparr>"

text \<open>
  \<^verbatim>\<open>print(s)\<close> writes \<open>s\<close> and a newline to standard output. The write is taken to
  succeed: a closed or unencodable standard output is not part of the model.
\<close>

definition print :: "py_str \<Rightarrow> world \<Rightarrow> world" where
  "print s w = w\<lparr>stdout := stdout w @ s @ [LF]\<rparr>"

text \<open>
  The outcome of \<^verbatim>\<open>Popen(...)\<close> followed by \<^verbatim>\<open>communicate()\<close>: either the process ran and
  left a return code (negative when a signal killed it), its standard output and its
  standard error, both decoded as text; or the \<^verbatim>\<open>subprocess\<close> module raised (the tool is
  not installed, the operating system refused the spawn, the output did not decode). These
  errors (\<^verbatim>\<open>OSError\<close>, \<^verbatim>\<open>ValueError\<close>, \<^verbatim>\<open>SubprocessError\<close>, \<^verbatim>\<open>UnicodeDecodeError\<close>) are all
  instances of \<^verbatim>\<open>Exception\<close>; \<open>Raised\<close> carries \<^verbatim>\<open>str(e)\<close>.
\<close>

datatype tool_outcome =
  Exited int py_str py_str
| Raised py_str

type_synonym tool = "py_str list \<Rightarrow> tool_outcome"

subsection \<open>\<^verbatim>\<open>get_changed_files\<close>\<close>

definition git_diff_command :: "py_str \<Rightarrow> py_str \<Rightarrow> py_str list" where
  "git_diff_command base_branch pr_branch =
     [pystr ''git'', pystr ''diff'', pystr ''--name-only'',
      pystr ''origin/'' @ base_branch @ pystr ''...'' @ pr_branch]"

text \<open>
  The body of the \<^verbatim>\<open>try\<close> statement. \<open>Inl\<close> is an exception leaving the body, together
  with the world at that moment; \<open>Inr\<close> is a \<^verbatim>\<open>return\<close>.
\<close>

definition get_changed_files_try ::
  "py_str \<Rightarrow> py_str \<Rightarrow> tool \<Rightarrow> world \<Rightarrow> (py_str \<times> world) + (py_str list \<times> world)" where
  "get_changed_files_try base_branch pr_branch run w =
     (let cmd = git_diff_command base_branch pr_branch;
          w1 = w\<lparr>popen_calls := popen_calls w @ [cmd]\<rparr>
      in case run cmd of
           Raised e \<Rightarrow> Inl (e, w1)
         | Exited returncode git_diff_output git_diff_error \<Rightarrow>
             if returncode \<noteq> 0
             then Inr ([], print (pystr ''Error: '' @ git_diff_error) w1)
             else Inr (splitlines git_diff_output, w1))"

text \<open>The whole function: \<^verbatim>\<open>except Exception as e\<close> prints and returns the empty list.\<close>

definition get_changed_files ::
  "py_str \<Rightarrow> py_str \<Rightarrow> tool \<Rightarrow> world \<Rightarrow> py_str list \<times> world" where
  "get_changed_files base_branch pr_branch run w =
     (case get_changed_files_try base_branch pr_branch run w of
        Inl (e, w1) \<Rightarrow> ([], print (pystr ''Error: '' @ e) w1)
      | Inr r \<Rightarrow> r)"

subsection \<open>\<^verbatim>\<open>main\<close>\<close>

text \<open>
  The command line after the program name, as \<^verbatim>\<open>argparse\<close> classifies its words: a
  positional word, or the help option (\<^verbatim>\<open>-h\<close>, \<^verbatim>\<open>--help\<close>) that every \<^verbatim>\<open>ArgumentParser\<close>
  has unless it is built with \<^verbatim>\<open>add_help=False\<close>. The parser of \<^verbatim>\<open>main\<close> declares two
  positionals and nothing else.
\<close>

datatype cli_arg =
  Positional py_str
| HelpOption

text \<open>
  \<^verbatim>\<open>parse_args\<close> returns the namespace or leaves the process, as the \<^verbatim>\<open>argparse\<close> of the
  Python standard library does: the help action prints the help and exits with status 0
  as soon as it is met, wherever it stands on the command line; \<^verbatim>\<open>parser.error\<close> (a
  required positional is missing, a word is left over) prints the usage and exits with
  status 2. The parser's own texts are not part of the modelled standard output.
\<close>

datatype parse_result =
  Namespace py_str py_str
| SystemExit int

fun parse_positionals :: "cli_arg list \<Rightarrow> parse_result" where
  "parse_positionals [Positional base_branch, Positional pr_branch] =
     Namespace base_branch pr_branch"
| "parse_positionals _ = SystemExit 2"

definition parse_args :: "cli_arg list \<Rightarrow> parse_result" where
  "parse_args argv =
     (if HelpOption \<in> set argv then SystemExit 0 else parse_positionals argv)"

definition over_limit_message :: py_str where
  "over_limit_message = pystr ''Number of changed files exceeds 20.''"

text \<open>
  \<^verbatim>\<open>main\<close> gives the exit status of the process and the world it leaves:
  \<^verbatim>\<open>sys.exit(1)\<close> is status 1, falling off the end is status 0.
\<close>

definition main :: "cli_arg list \<Rightarrow> tool \<Rightarrow> world \<Rightarrow> int \<times> world" where
  "main argv run w =
     (case parse_args argv of
        SystemExit code \<Rightarrow> (code, w)
      | Namespace base_branch pr_branch \<Rightarrow>
          (case get_changed_files base_branch pr_branch run w of
             (changed_files, w') \<Rightarrow>
               if length changed_files > 20
               then (1, print over_limit_message w')
               else (0, w')))"

subsection \<open>Vocabulary for the statements\<close>

text \<open>
  What \<^verbatim>\<open>git diff --name-only\<close> writes for a list of paths: each path followed by a
  newline. A path line holds no line boundary itself.
\<close>

definition terminated_lines :: "py_str list \<Rightarrow> py_str" where
  "terminated_lines ls = concat (map (\<lambda>l. l @ [LF]) ls)"

definition no_linebreak :: "py_str \<Rightarrow> bool" where
  "no_linebreak l \<longleftrightarrow> (\<forall>c \<in> set l. \<not> is_linebreak c)"

text \<open>
  The two ways the diff tool fails, as \<^verbatim>\<open>get_changed_files\<close> tells them apart: the
  \<^verbatim>\<open>subprocess\<close> module raised, or the return code is not 0.
\<close>

fun failed :: "tool_outcome \<Rightarrow> bool" where
  "failed (Raised e) = True"
| "failed (Exited returncode out err) = (returncode \<noteq> 0)"

text \<open>The positional words of a command line, in order.\<close>

fun positionals :: "cli_arg list \<Rightarrow> py_str list" where
  "positionals [] = []"
| "positionals (Positional s # argv) = s # positionals argv"
| "positionals (HelpOption # argv) = positionals argv"

subsection \<open>Concrete runs\<close>

definition main_branch :: py_str where
  "main_branch = pystr ''main''"

definition feature_x :: py_str where
  "feature_x = pystr ''feature-x''"

definition argv_ok :: "cli_arg list" where
  "argv_ok = [Positional main_branch, Positional feature_x]"

definition a_py :: py_str where
  "a_py = pystr ''a.py''"

definition b_py :: py_str where
  "b_py = pystr ''src/b.py''"

text \<open>A git that succeeds and writes \<open>out\<close>.\<close>

definition tool_prints :: "py_str \<Rightarrow> tool" where
  "tool_prints out cmd = Exited 0 out []"

text \<open>A git that does not know the revision.\<close>

definition fatal_text :: py_str where
  "fatal_text = pystr ''fatal: bad revision''"

definition tool_fatal :: tool where
  "tool_fatal cmd = Exited 128 [] fatal_text"

text \<open>No git on the machine: \<^verbatim>\<open>Popen\<close> raises \<^verbatim>\<open>FileNotFoundError\<close>.\<close>

definition missing_text :: py_str where
  "missing_text = pystr ''[Errno 2] No such file or directory: git''"

definition tool_missing :: tool where
  "tool_missing cmd = Raised missing_text"

text \<open>Two machines that agree on the diff of the two branches and on nothing else.\<close>

definition machine_one :: tool where
  "machine_one cmd =
     (if cmd = git_diff_command main_branch feature_x
      then Exited 0 (terminated_lines [a_py, b_py]) []
      else Raised missing_text)"

definition machine_two :: tool where
  "machine_two cmd =
     (if cmd = git_diff_command main_branch feature_x
      then Exited 0 (terminated_lines [a_py, b_py]) []
      else Exited 1 [] fatal_text)"

section \<open>Lemmas\<close>

subsection \<open>\<^verbatim>\<open>splitlines\<close>\<close>

lemma is_linebreak_LF [simp]: "is_linebreak LF"
  by (simp add: is_linebreak_def LF_def)

lemma is_linebreak_CR [simp]: "is_linebreak CR"
  by (simp add: is_linebreak_def CR_def)

lemma LF_neq_CR [simp]: "LF \<noteq> CR"
  by (simp add: LF_def CR_def)

lemma no_linebreak_Nil [simp]: "no_linebreak []"
  by (simp add: no_linebreak_def)

lemma no_linebreak_snoc: "no_linebreak l \<Longrightarrow> \<not> is_linebreak c \<Longrightarrow> no_linebreak (l @ [c])"
  by (simp add: no_linebreak_def)

text \<open>Away from a carriage return the scan looks at one code point only.\<close>

lemma splitlines_from_step:
  "c \<noteq> CR \<Longrightarrow>
   splitlines_from line (c # cs) =
     (if is_linebreak c then line # splitlines_from [] cs else splitlines_from (line @ [c]) cs)"
  by (cases cs) simp_all

lemma splitlines_from_line:
  "no_linebreak l \<Longrightarrow>
   splitlines_from acc (l @ LF # rest) = (acc @ l) # splitlines_from [] rest"
proof (induction l arbitrary: acc)
  case Nil
  show ?case by (simp add: splitlines_from_step)
next
  case (Cons c l)
  from Cons.prems have c: "\<not> is_linebreak c" and l: "no_linebreak l"
    by (simp_all add: no_linebreak_def)
  from c have "c \<noteq> CR" by auto
  then have "splitlines_from acc ((c # l) @ LF # rest) = splitlines_from (acc @ [c]) (l @ LF # rest)"
    using c by (simp add: splitlines_from_step)
  also have "\<dots> = ((acc @ [c]) @ l) # splitlines_from [] rest"
    by (rule Cons.IH [OF l])
  finally show ?case by simp
qed

lemma splitlines_from_last_line:
  "no_linebreak l \<Longrightarrow> acc @ l \<noteq> [] \<Longrightarrow> splitlines_from acc l = [acc @ l]"
proof (induction l arbitrary: acc)
  case Nil
  then show ?case by simp
next
  case (Cons c l)
  from Cons.prems have c: "\<not> is_linebreak c" and l: "no_linebreak l"
    by (simp_all add: no_linebreak_def)
  from c have "c \<noteq> CR" by auto
  then have "splitlines_from acc (c # l) = splitlines_from (acc @ [c]) l"
    using c by (simp add: splitlines_from_step)
  also have "\<dots> = [(acc @ [c]) @ l]"
    by (rule Cons.IH [OF l]) simp
  finally show ?case by simp
qed

lemma splitlines_from_terminated:
  "\<forall>l \<in> set ls. no_linebreak l \<Longrightarrow>
   splitlines_from [] (terminated_lines ls @ rest) = ls @ splitlines_from [] rest"
proof (induction ls)
  case Nil
  show ?case by (simp add: terminated_lines_def)
next
  case (Cons l ls)
  have "splitlines_from [] (terminated_lines (l # ls) @ rest) =
        splitlines_from [] (l @ LF # (terminated_lines ls @ rest))"
    by (simp add: terminated_lines_def)
  also have "\<dots> = l # splitlines_from [] (terminated_lines ls @ rest)"
    using Cons.prems splitlines_from_line [of l "[]"] by simp
  also have "\<dots> = l # ls @ splitlines_from [] rest"
    using Cons by simp
  finally show ?case by simp
qed

lemma splitlines_terminated:
  "\<forall>l \<in> set ls. no_linebreak l \<Longrightarrow> splitlines (terminated_lines ls) = ls"
  using splitlines_from_terminated [of ls "[]"] by (simp add: splitlines_def)

lemma splitlines_unterminated:
  "\<forall>l \<in> set ls. no_linebreak l \<Longrightarrow> no_linebreak l \<Longrightarrow> l \<noteq> [] \<Longrightarrow>
   splitlines (terminated_lines ls @ l) = ls @ [l]"
  using splitlines_from_terminated [of ls l] splitlines_from_last_line [of l "[]"]
  by (simp add: splitlines_def)

lemma splitlines_from_final_newline:
  "acc @ s \<noteq> [] \<Longrightarrow> s = [] \<or> \<not> is_linebreak (last s) \<Longrightarrow>
   splitlines_from acc (s @ [LF]) = splitlines_from acc s"
proof (induction acc s rule: splitlines_from.induct)
  case (1 line)
  then show ?case by simp
next
  case (2 line c)
  then have "\<not> is_linebreak c" by simp
  moreover from this have "c \<noteq> CR" by auto
  ultimately show ?case by simp
next
  case (3 line c d cs)
  from "3.prems" have lst: "\<not> is_linebreak (last (d # cs))" by simp
  show ?case
  proof (cases "c = CR \<and> d = LF")
    case True
    with lst have "cs \<noteq> []" by auto
    with lst have "\<not> is_linebreak (last cs)" by simp
    with True \<open>cs \<noteq> []\<close> have "splitlines_from [] (cs @ [LF]) = splitlines_from [] cs"
      using "3.IH"(1) by simp
    with True show ?thesis by simp
  next
    case False
    show ?thesis
    proof (cases "is_linebreak c")
      case True
      have "splitlines_from [] ((d # cs) @ [LF]) = splitlines_from [] (d # cs)"
        using "3.IH"(2) [OF False True] lst by simp
      with False True show ?thesis by auto
    next
      case nb: False
      have "splitlines_from (line @ [c]) ((d # cs) @ [LF]) = splitlines_from (line @ [c]) (d # cs)"
        using "3.IH"(3) [OF False nb] lst by simp
      with False nb show ?thesis by auto
    qed
  qed
qed

lemma splitlines_final_newline:
  "s \<noteq> [] \<Longrightarrow> \<not> is_linebreak (last s) \<Longrightarrow> splitlines (s @ [LF]) = splitlines s"
  using splitlines_from_final_newline [of "[]" s] by (simp add: splitlines_def)

text \<open>Nothing but the boundaries is dropped, and nothing is reordered.\<close>

lemma concat_splitlines_from:
  "concat (splitlines_from acc s) = acc @ filter (\<lambda>c. \<not> is_linebreak c) s"
proof (induction acc s rule: splitlines_from.induct)
  case (1 line)
  show ?case by simp
next
  case (2 line c)
  show ?case by simp
next
  case (3 line c d cs)
  show ?case
  proof (cases "c = CR \<and> d = LF")
    case True
    with 3 show ?thesis by simp
  next
    case False
    with 3 show ?thesis by (cases "is_linebreak c") auto
  qed
qed

lemma splitlines_from_no_linebreak:
  "no_linebreak acc \<Longrightarrow> l \<in> set (splitlines_from acc s) \<Longrightarrow> no_linebreak l"
proof (induction acc s arbitrary: l rule: splitlines_from.induct)
  case (1 line)
  then show ?case by (simp split: if_splits)
next
  case (2 line c)
  then show ?case by (auto simp: no_linebreak_snoc split: if_splits)
next
  case (3 line c d cs)
  show ?case
  proof (cases "c = CR \<and> d = LF")
    case True
    with "3.prems" have "l = line \<or> l \<in> set (splitlines_from [] cs)" by simp
    then show ?thesis using "3.IH"(1) [OF True] "3.prems"(1) by auto
  next
    case False
    show ?thesis
    proof (cases "is_linebreak c")
      case True
      with False "3.prems" have "l = line \<or> l \<in> set (splitlines_from [] (d # cs))" by auto
      then show ?thesis using "3.IH"(2) [OF False True] "3.prems"(1) by auto
    next
      case nb: False
      with False "3.prems" have "l \<in> set (splitlines_from (line @ [c]) (d # cs))" by auto
      then show ?thesis
        using "3.IH"(3) [OF False nb] "3.prems"(1) nb by (simp add: no_linebreak_snoc)
    qed
  qed
qed

lemma no_linebreak_a_py [simp]: "no_linebreak a_py"
  by (simp add: no_linebreak_def a_py_def pystr_def is_linebreak_def)

lemma no_linebreak_b_py [simp]: "no_linebreak b_py"
  by (simp add: no_linebreak_def b_py_def pystr_def is_linebreak_def)

subsection \<open>The three ways through \<^verbatim>\<open>get_changed_files\<close>\<close>

lemma get_changed_files_success:
  "run (git_diff_command b p) = Exited 0 out err \<Longrightarrow>
   get_changed_files b p run w =
     (splitlines out, w\<lparr>popen_calls := popen_calls w @ [git_diff_command b p]\<rparr>)"
  by (simp add: get_changed_files_def get_changed_files_try_def)

lemma get_changed_files_nonzero:
  "run (git_diff_command b p) = Exited rc out err \<Longrightarrow> rc \<noteq> 0 \<Longrightarrow>
   get_changed_files b p run w =
     ([], print (pystr ''Error: '' @ err)
            (w\<lparr>popen_calls := popen_calls w @ [git_diff_command b p]\<rparr>))"
  by (simp add: get_changed_files_def get_changed_files_try_def)

lemma get_changed_files_raised:
  "run (git_diff_command b p) = Raised e \<Longrightarrow>
   get_changed_files b p run w =
     ([], print (pystr ''Error: '' @ e)
            (w\<lparr>popen_calls := popen_calls w @ [git_diff_command b p]\<rparr>))"
  by (simp add: get_changed_files_def get_changed_files_try_def)

lemma get_changed_files_failed:
  "failed (run (git_diff_command b p)) \<Longrightarrow> fst (get_changed_files b p run w) = []"
  by (cases "run (git_diff_command b p)")
     (simp_all add: get_changed_files_nonzero get_changed_files_raised)

subsection \<open>\<^verbatim>\<open>parse_args\<close> and \<^verbatim>\<open>main\<close>\<close>

lemma parse_args_two [simp]:
  "parse_args [Positional b, Positional p] = Namespace b p"
  by (simp add: parse_args_def)

lemma parse_args_argv_ok [simp]:
  "parse_args argv_ok = Namespace main_branch feature_x"
  by (simp add: argv_ok_def)

lemma parse_args_Namespace:
  "parse_args argv = Namespace b p \<longleftrightarrow> argv = [Positional b, Positional p]"
  by (cases argv rule: parse_positionals.cases) (auto simp: parse_args_def)

lemma main_parsed:
  "parse_args argv = Namespace b p \<Longrightarrow>
   main argv run w =
     (let r = get_changed_files b p run w in
      if length (fst r) > 20 then (1, print over_limit_message (snd r)) else (0, snd r))"
  by (simp add: main_def Let_def split: prod.splits)

lemma main_parser_exit:
  "parse_args argv = SystemExit code \<Longrightarrow> main argv run w = (code, w)"
  by (simp add: main_def)

lemma tool_prints_run: "tool_prints out cmd = Exited 0 out []"
  by (simp add: tool_prints_def)

lemma get_changed_files_long:
  assumes "length (fst (get_changed_files b p run w)) > 20"
  shows "snd (get_changed_files b p run w) =
           w\<lparr>popen_calls := popen_calls w @ [git_diff_command b p]\<rparr>"
proof (cases "run (git_diff_command b p)")
  case (Raised e)
  with assms show ?thesis by (simp add: get_changed_files_raised)
next
  case (Exited rc out err)
  with assms show ?thesis
    by (cases "rc = 0") (simp_all add: get_changed_files_nonzero get_changed_files_success)
qed

lemma tool_fatal_run: "tool_fatal cmd = Exited 128 [] fatal_text"
  by (simp add: tool_fatal_def)

lemma tool_missing_run: "tool_missing cmd = Raised missing_text"
  by (simp add: tool_missing_def)

lemma positionals_no_help:
  "HelpOption \<notin> set argv \<Longrightarrow> length (positionals argv) = length argv"
  by (induction argv rule: positionals.induct) simp_all

lemma parse_args_missing:
  assumes "length (positionals argv) < 2"
  shows "parse_args argv = SystemExit (if HelpOption \<in> set argv then 0 else 2)"
proof (cases "HelpOption \<in> set argv")
  case True
  then show ?thesis by (simp add: parse_args_def)
next
  case False
  with assms have "length argv < 2" by (simp add: positionals_no_help)
  then have "parse_positionals argv = SystemExit 2"
    by (cases argv rule: parse_positionals.cases) simp_all
  with False show ?thesis by (simp add: parse_args_def)
qed

lemma a_b_terminated:
  "pystr ''a\<newline>b\<newline>'' = terminated_lines [pystr ''a'', pystr ''b'']"
  by (simp add: pystr_def terminated_lines_def LF_def)

lemma no_linebreak_a_b:
  "\<forall>l \<in> set [pystr ''a'', pystr ''b'']. no_linebreak l"
  by (simp add: pystr_def no_linebreak_def is_linebreak_def)

section \<open>The claims\<close>

subsection \<open>The threshold\<close>

text \<open>
  Claim C1. When the diff tool succeeds (return code 0) and \<^verbatim>\<open>get_changed_files\<close> gives a
  list of length \<open>L\<close>, \<^verbatim>\<open>main\<close> ends with exit code 1 if and only if \<open>L > 20\<close>, and with
  exit code 0 otherwise; \<open>L = 20\<close> gives 0 and \<open>L = 21\<close> gives 1.
\<close>

theorem main_exit_code_threshold:
  assumes "parse_args argv = Namespace base_branch pr_branch"
    and "run (git_diff_command base_branch pr_branch) = Exited 0 out err"
    and "length (fst (get_changed_files base_branch pr_branch run w)) = L"
  shows "(fst (main argv run w) = 1 \<longleftrightarrow> L > 20) \<and>
         (fst (main argv run w) = 0 \<longleftrightarrow> L \<le> 20) \<and>
         (L = 20 \<longrightarrow> fst (main argv run w) = 0) \<and>
         (L = 21 \<longrightarrow> fst (main argv run w) = 1)"
  using assms by (auto simp: main_parsed Let_def)

text \<open>
  Branches \<^verbatim>\<open>main\<close> and \<^verbatim>\<open>feature-x\<close>, a diff of 20 paths and a diff of 21 paths.
\<close>

theorem main_exit_code_threshold_witness:
  "parse_args argv_ok = Namespace main_branch feature_x \<and>
   tool_prints (terminated_lines (replicate 20 a_py)) (git_diff_command main_branch feature_x) =
     Exited 0 (terminated_lines (replicate 20 a_py)) [] \<and>
   length (fst (get_changed_files main_branch feature_x
     (tool_prints (terminated_lines (replicate 20 a_py))) init_world)) = 20 \<and>
   fst (main argv_ok (tool_prints (terminated_lines (replicate 20 a_py))) init_world) = 0 \<and>
   length (fst (get_changed_files main_branch feature_x
     (tool_prints (terminated_lines (replicate 21 a_py))) init_world)) = 21 \<and>
   fst (main argv_ok (tool_prints (terminated_lines (replicate 21 a_py))) init_world) = 1"
proof -
  have run: "tool_prints out (git_diff_command main_branch feature_x) = Exited 0 out []" for out
    by (simp add: tool_prints_def)
  have len: "length (fst (get_changed_files main_branch feature_x
      (tool_prints (terminated_lines (replicate n a_py))) init_world)) = n" for n
    using get_changed_files_success
      [where run = "tool_prints (terminated_lines (replicate n a_py))", OF run]
    by (simp add: splitlines_terminated)
  show ?thesis
    using main_exit_code_threshold
        [where run = "tool_prints (terminated_lines (replicate 20 a_py))" and w = init_world,
          OF parse_args_argv_ok run len]
      main_exit_code_threshold
        [where run = "tool_prints (terminated_lines (replicate 21 a_py))" and w = init_world,
          OF parse_args_argv_ok run len]
      run len
    by simp
qed

subsection \<open>Failing open\<close>

text \<open>
  Claim C2. When the diff tool fails, by a return code other than 0 or by an error raised
  at the launch, \<^verbatim>\<open>get_changed_files\<close> returns the empty list and \<^verbatim>\<open>main\<close> ends with exit
  code 0, never with exit code 1.
\<close>

theorem tool_failure_fails_open:
  assumes "parse_args argv = Namespace base_branch pr_branch"
    and "failed (run (git_diff_command base_branch pr_branch))"
  shows "fst (get_changed_files base_branch pr_branch run w) = [] \<and>
         fst (main argv run w) = 0 \<and> fst (main argv run w) \<noteq> 1"
  using assms by (simp add: main_parsed Let_def get_changed_files_failed)

text \<open>An unknown revision (return code 128) and a machine without git.\<close>

theorem tool_failure_fails_open_witness:
  "failed (tool_fatal (git_diff_command main_branch feature_x)) \<and>
   fst (get_changed_files main_branch feature_x tool_fatal init_world) = [] \<and>
   fst (main argv_ok tool_fatal init_world) = 0 \<and>
   failed (tool_missing (git_diff_command main_branch feature_x)) \<and>
   fst (get_changed_files main_branch feature_x tool_missing init_world) = [] \<and>
   fst (main argv_ok tool_missing init_world) = 0"
proof -
  have f: "failed (tool_fatal (git_diff_command main_branch feature_x))"
    by (simp add: tool_fatal_def)
  have m: "failed (tool_missing (git_diff_command main_branch feature_x))"
    by (simp add: tool_missing_def)
  show ?thesis
    using tool_failure_fails_open [where run = tool_fatal and w = init_world, OF parse_args_argv_ok f]
      tool_failure_fails_open [where run = tool_missing and w = init_world, OF parse_args_argv_ok m]
      f m
    by simp
qed

text \<open>
  Claim C3. \<^verbatim>\<open>get_changed_files\<close> never raises to its caller. Whatever exception leaves the
  body of its \<^verbatim>\<open>try\<close>, the handler prints it and returns the empty list; on a return code
  other than 0 the function prints \<^verbatim>\<open>Error: \<close> followed by the captured standard error and
  returns the empty list; when the launch itself raises, it prints \<^verbatim>\<open>Error: \<close> followed
  by the error and returns the empty list. In each case the command was handed to
  \<^verbatim>\<open>Popen\<close> once and nothing else was printed.
\<close>

theorem get_changed_files_never_raises:
  "(get_changed_files_try base_branch pr_branch run w = Inl (e, w1) \<longrightarrow>
      get_changed_files base_branch pr_branch run w = ([], print (pystr ''Error: '' @ e) w1)) \<and>
   (run (git_diff_command base_branch pr_branch) = Exited rc out err \<and> rc \<noteq> 0 \<longrightarrow>
      get_changed_files base_branch pr_branch run w =
        ([], w\<lparr>stdout := stdout w @ pystr ''Error: '' @ err @ [LF],
               popen_calls := popen_calls w @ [git_diff_command base_branch pr_branch]\<rparr>)) \<and>
   (run (git_diff_command base_branch pr_branch) = Raised e \<longrightarrow>
      get_changed_files_try base_branch pr_branch run w =
        Inl (e, w\<lparr>popen_calls := popen_calls w @ [git_diff_command base_branch pr_branch]\<rparr>) \<and>
      get_changed_files base_branch pr_branch run w =
        ([], w\<lparr>stdout := stdout w @ pystr ''Error: '' @ e @ [LF],
               popen_calls := popen_calls w @ [git_diff_command base_branch pr_branch]\<rparr>))"
  by (simp add: get_changed_files_def get_changed_files_try_def print_def)

text \<open>The same two failures, with the text each leaves on standard output.\<close>

theorem get_changed_files_never_raises_witness:
  "tool_fatal (git_diff_command main_branch feature_x) = Exited 128 [] fatal_text \<and>
   get_changed_files main_branch feature_x tool_fatal init_world =
     ([], \<lparr>stdout = pystr ''Error: fatal: bad revision\<newline>'',
           popen_calls = [git_diff_command main_branch feature_x]\<rparr>) \<and>
   tool_missing (git_diff_command main_branch feature_x) = Raised missing_text \<and>
   get_changed_files_try main_branch feature_x tool_missing init_world =
     Inl (missing_text, \<lparr>stdout = [], popen_calls = [git_diff_command main_branch feature_x]\<rparr>) \<and>
   get_changed_files main_branch feature_x tool_missing init_world =
     ([], \<lparr>stdout = pystr ''Error: [Errno 2] No such file or directory: git\<newline>'',
           popen_calls = [git_diff_command main_branch feature_x]\<rparr>)"
proof -
  have f: "tool_fatal (git_diff_command main_branch feature_x) = Exited 128 [] fatal_text"
    by (simp add: tool_fatal_def)
  have m: "tool_missing (git_diff_command main_branch feature_x) = Raised missing_text"
    by (simp add: tool_missing_def)
  show ?thesis
    using get_changed_files_never_raises
        [of main_branch feature_x tool_fatal init_world missing_text
            "\<lparr>stdout = [], popen_calls = [git_diff_command main_branch feature_x]\<rparr>"
            128 "[]" fatal_text]
      get_changed_files_never_raises
        [of main_branch feature_x tool_missing init_world missing_text
            "\<lparr>stdout = [], popen_calls = [git_diff_command main_branch feature_x]\<rparr>"
            128 "[]" fatal_text]
      f m
    by (simp add: init_world_def fatal_text_def missing_text_def pystr_def LF_def)
qed

subsection \<open>The list of changed files\<close>

text \<open>
  Claim C4. On a successful run (return code 0) \<^verbatim>\<open>get_changed_files\<close> returns exactly the
  lines of the captured standard output and prints nothing: an empty output gives the
  empty list; an output of newline-terminated lines gives these lines, one element each,
  in the order written and with repetitions kept; a last line without its newline is still
  an element. In general the elements hold every code point of the output except the
  line boundaries, in order, and no element holds a line boundary.
\<close>

theorem get_changed_files_returns_lines:
  assumes "run (git_diff_command base_branch pr_branch) = Exited 0 out err"
  shows "fst (get_changed_files base_branch pr_branch run w) = splitlines out \<and>
         stdout (snd (get_changed_files base_branch pr_branch run w)) = stdout w \<and>
         (out = [] \<longrightarrow> fst (get_changed_files base_branch pr_branch run w) = []) \<and>
         ((\<forall>l \<in> set ls. no_linebreak l) \<and> out = terminated_lines ls \<longrightarrow>
            fst (get_changed_files base_branch pr_branch run w) = ls) \<and>
         ((\<forall>l \<in> set ls. no_linebreak l) \<and> no_linebreak l \<and> l \<noteq> [] \<and>
          out = terminated_lines ls @ l \<longrightarrow>
            fst (get_changed_files base_branch pr_branch run w) = ls @ [l]) \<and>
         concat (fst (get_changed_files base_branch pr_branch run w)) =
           filter (\<lambda>c. \<not> is_linebreak c) out \<and>
         (\<forall>f \<in> set (fst (get_changed_files base_branch pr_branch run w)). no_linebreak f)"
proof -
  have files: "fst (get_changed_files base_branch pr_branch run w) = splitlines out"
    and world: "stdout (snd (get_changed_files base_branch pr_branch run w)) = stdout w"
    using get_changed_files_success [where run = run and w = w, OF assms] by simp_all
  have empty: "splitlines [] = []"
    by (simp add: splitlines_def)
  have chars: "concat (splitlines out) = filter (\<lambda>c. \<not> is_linebreak c) out"
    using concat_splitlines_from [of "[]" out] by (simp add: splitlines_def)
  have clean: "\<forall>f \<in> set (splitlines out). no_linebreak f"
    using splitlines_from_no_linebreak [of "[]" _ out] by (auto simp: splitlines_def)
  show ?thesis
    unfolding files world
    using empty chars clean splitlines_terminated [of ls] splitlines_unterminated [of ls l]
    by blast
qed

text \<open>
  An empty diff; three lines of which two are the same path; the same three lines with the
  final newline missing.
\<close>

theorem get_changed_files_returns_lines_witness:
  "fst (get_changed_files main_branch feature_x (tool_prints []) init_world) = [] \<and>
   fst (get_changed_files main_branch feature_x
          (tool_prints (terminated_lines [b_py, a_py, b_py])) init_world) = [b_py, a_py, b_py] \<and>
   fst (get_changed_files main_branch feature_x
          (tool_prints (terminated_lines [b_py, a_py] @ b_py)) init_world) = [b_py, a_py, b_py]"
proof -
  have ne: "b_py \<noteq> []"
    by (simp add: b_py_def pystr_def)
  have nb: "no_linebreak b_py"
    by simp
  have three: "\<forall>l \<in> set [b_py, a_py, b_py]. no_linebreak l"
    and two: "\<forall>l \<in> set [b_py, a_py]. no_linebreak l"
    by simp_all
  have "fst (get_changed_files main_branch feature_x (tool_prints []) init_world) = []"
    using get_changed_files_returns_lines
        [where run = "tool_prints []" and w = init_world and base_branch = main_branch
           and pr_branch = feature_x, OF tool_prints_run]
    by blast
  moreover
  have "fst (get_changed_files main_branch feature_x
          (tool_prints (terminated_lines [b_py, a_py, b_py])) init_world) = [b_py, a_py, b_py]"
    using get_changed_files_returns_lines
        [where run = "tool_prints (terminated_lines [b_py, a_py, b_py])" and w = init_world
           and base_branch = main_branch and pr_branch = feature_x
           and ls = "[b_py, a_py, b_py]", OF tool_prints_run]
      three
    by blast
  moreover
  have "fst (get_changed_files main_branch feature_x
          (tool_prints (terminated_lines [b_py, a_py] @ b_py)) init_world) = [b_py, a_py] @ [b_py]"
    using get_changed_files_returns_lines
        [where run = "tool_prints (terminated_lines [b_py, a_py] @ b_py)" and w = init_world
           and base_branch = main_branch and pr_branch = feature_x
           and ls = "[b_py, a_py]" and l = b_py, OF tool_prints_run]
      two ne nb
    by blast
  ultimately show ?thesis by simp
qed

subsection \<open>The message\<close>

text \<open>
  Claim C5. Whenever the list returned by \<^verbatim>\<open>get_changed_files\<close> is longer than 20, \<^verbatim>\<open>main\<close>
  prints the fixed message \<^verbatim>\<open>Number of changed files exceeds 20.\<close> (as one line, and
  nothing else) on standard output and ends with exit code 1.
\<close>

theorem main_over_limit_message:
  assumes "parse_args argv = Namespace base_branch pr_branch"
    and "length (fst (get_changed_files base_branch pr_branch run w)) > 20"
  shows "fst (main argv run w) = 1 \<and>
         stdout (snd (main argv run w)) =
           stdout w @ pystr ''Number of changed files exceeds 20.'' @ [LF]"
  using assms get_changed_files_long [OF assms(2)]
  by (simp add: main_parsed Let_def print_def over_limit_message_def)

text \<open>Branches \<^verbatim>\<open>main\<close> and \<^verbatim>\<open>feature-x\<close> with a diff of 25 paths.\<close>

theorem main_over_limit_message_witness:
  "length (fst (get_changed_files main_branch feature_x
     (tool_prints (terminated_lines (replicate 25 a_py))) init_world)) = 25 \<and>
   fst (main argv_ok (tool_prints (terminated_lines (replicate 25 a_py))) init_world) = 1 \<and>
   stdout (snd (main argv_ok (tool_prints (terminated_lines (replicate 25 a_py))) init_world)) =
     pystr ''Number of changed files exceeds 20.\<newline>''"
proof -
  have len: "length (fst (get_changed_files main_branch feature_x
      (tool_prints (terminated_lines (replicate 25 a_py))) init_world)) = 25"
    using get_changed_files_success
      [where run = "tool_prints (terminated_lines (replicate 25 a_py))", OF tool_prints_run]
    by (simp add: splitlines_terminated)
  then have gt: "length (fst (get_changed_files main_branch feature_x
      (tool_prints (terminated_lines (replicate 25 a_py))) init_world)) > 20"
    by simp
  show ?thesis
    using main_over_limit_message [OF parse_args_argv_ok gt] len
    by (simp add: init_world_def pystr_def LF_def)
qed

subsection \<open>Standard output\<close>

text \<open>
  Claim C6, as amended. On every run past argument parsing, what the script has written on
  standard output is exactly one of: nothing (the tool succeeded and at most 20 lines came
  back); the line \<^verbatim>\<open>Error: \<close> followed by the tool's captured standard error (return code
  other than 0) or by the text of the error raised at the launch; or the line of the fixed
  over-limit message (the tool succeeded and more than 20 lines came back).
\<close>

theorem main_stdout_cases:
  assumes "parse_args argv = Namespace base_branch pr_branch"
  shows "stdout (snd (main argv run init_world)) =
           (case run (git_diff_command base_branch pr_branch) of
              Raised e \<Rightarrow> pystr ''Error: '' @ e @ [LF]
            | Exited returncode out err \<Rightarrow>
                if returncode \<noteq> 0 then pystr ''Error: '' @ err @ [LF]
                else if length (splitlines out) > 20
                     then pystr ''Number of changed files exceeds 20.'' @ [LF]
                     else [])"
proof (cases "run (git_diff_command base_branch pr_branch)")
  case (Raised e)
  then show ?thesis
    using assms
    by (simp add: main_parsed Let_def get_changed_files_raised print_def init_world_def)
next
  case (Exited rc out err)
  then show ?thesis
    using assms
    by (cases "rc = 0")
       (simp_all add: main_parsed Let_def get_changed_files_nonzero get_changed_files_success
          print_def init_world_def over_limit_message_def)
qed

text \<open>One run for each of the four branches.\<close>

theorem main_stdout_cases_witness:
  "stdout (snd (main argv_ok tool_missing init_world)) =
     pystr ''Error: [Errno 2] No such file or directory: git\<newline>'' \<and>
   stdout (snd (main argv_ok tool_fatal init_world)) = pystr ''Error: fatal: bad revision\<newline>'' \<and>
   stdout (snd (main argv_ok (tool_prints (terminated_lines (replicate 25 a_py))) init_world)) =
     pystr ''Number of changed files exceeds 20.\<newline>'' \<and>
   stdout (snd (main argv_ok (tool_prints (terminated_lines (replicate 5 a_py))) init_world)) = []"
proof -
  have "stdout (snd (main argv_ok tool_missing init_world)) =
          pystr ''Error: [Errno 2] No such file or directory: git\<newline>''"
    using main_stdout_cases [where run = tool_missing, OF parse_args_argv_ok]
    by (simp add: tool_missing_run missing_text_def pystr_def LF_def)
  moreover
  have "stdout (snd (main argv_ok tool_fatal init_world)) = pystr ''Error: fatal: bad revision\<newline>''"
    using main_stdout_cases [where run = tool_fatal, OF parse_args_argv_ok]
    by (simp add: tool_fatal_run fatal_text_def pystr_def LF_def)
  moreover
  have "stdout (snd (main argv_ok (tool_prints (terminated_lines (replicate 25 a_py))) init_world)) =
          pystr ''Number of changed files exceeds 20.\<newline>''"
    using main_stdout_cases
      [where run = "tool_prints (terminated_lines (replicate 25 a_py))", OF parse_args_argv_ok]
    by (simp add: tool_prints_run splitlines_terminated pystr_def LF_def)
  moreover
  have "stdout (snd (main argv_ok (tool_prints (terminated_lines (replicate 5 a_py))) init_world)) = []"
    using main_stdout_cases
      [where run = "tool_prints (terminated_lines (replicate 5 a_py))", OF parse_args_argv_ok]
    by (simp add: tool_prints_run splitlines_terminated)
  ultimately show ?thesis by simp
qed

text \<open>
  The claim as first stated had the tool's error text verbatim on standard output. With a
  git that answers \<^verbatim>\<open>fatal: bad revision\<close> and return code 128, the output is
  \<^verbatim>\<open>Error: fatal: bad revision\<close>: it is not empty, not the error text (with or without a
  newline after it), and not the over-limit message (with or without a newline after it).
\<close>

theorem stdout_not_verbatim_counterexample:
  "parse_args argv_ok = Namespace main_branch feature_x \<and>
   tool_fatal (git_diff_command main_branch feature_x) = Exited 128 [] fatal_text \<and>
   stdout (snd (main argv_ok tool_fatal init_world)) \<noteq> [] \<and>
   stdout (snd (main argv_ok tool_fatal init_world)) \<noteq> fatal_text \<and>
   stdout (snd (main argv_ok tool_fatal init_world)) \<noteq> fatal_text @ [LF] \<and>
   stdout (snd (main argv_ok tool_fatal init_world)) \<noteq> over_limit_message \<and>
   stdout (snd (main argv_ok tool_fatal init_world)) \<noteq> over_limit_message @ [LF]"
  by (simp add: main_parsed Let_def get_changed_files_nonzero [OF tool_fatal_run] print_def
      init_world_def fatal_text_def over_limit_message_def pystr_def LF_def tool_fatal_run)

subsection \<open>The command line\<close>

text \<open>
  Claim C7, as amended. For every command line with fewer than two positional words,
  \<^verbatim>\<open>main\<close> ends with the exit code of the argument parser and never calls
  \<^verbatim>\<open>get_changed_files\<close> (no command is spawned, nothing is printed by the script); that
  exit code is 2 unless the help option is on the command line, and 0 when it is.
\<close>

theorem missing_argument_parser_exit:
  assumes "length (positionals argv) < 2"
  shows "main argv run w = (if HelpOption \<in> set argv then 0 else 2, w) \<and>
         popen_calls (snd (main argv run w)) = popen_calls w"
  using parse_args_missing [OF assms] by (simp add: main_parser_exit)

text \<open>No argument, one argument, and one argument with the help option.\<close>

theorem missing_argument_parser_exit_witness:
  "length (positionals []) < 2 \<and> main [] tool_missing init_world = (2, init_world) \<and>
   length (positionals [Positional main_branch]) < 2 \<and>
   main [Positional main_branch] tool_missing init_world = (2, init_world) \<and>
   length (positionals [Positional main_branch, HelpOption]) < 2 \<and>
   main [Positional main_branch, HelpOption] tool_missing init_world = (0, init_world)"
  using missing_argument_parser_exit [of "[]" tool_missing init_world]
    missing_argument_parser_exit [of "[Positional main_branch]" tool_missing init_world]
    missing_argument_parser_exit [of "[Positional main_branch, HelpOption]" tool_missing init_world]
  by simp

text \<open>
  The claim as first stated promised a non-zero exit code for every command line with a
  missing positional. \<^verbatim>\<open>check_files_submitted.py -h\<close> has neither positional and ends with
  exit code 0.
\<close>

theorem missing_argument_exit_zero_counterexample:
  "length (positionals [HelpOption]) < 2 \<and> fst (main [HelpOption] tool_missing init_world) = 0"
  by (simp add: main_def parse_args_def)

subsection \<open>Determinism\<close>

text \<open>
  Claim C8. Two runs with the same arguments, on machines where the diff of the two
  branches gives the same return code, standard output and standard error (or the same
  error at the launch), end with the same exit code and leave the same printed output.
  The machines may differ on every other command.
\<close>

theorem main_deterministic:
  assumes "\<forall>b p. parse_args argv = Namespace b p \<longrightarrow>
             run1 (git_diff_command b p) = run2 (git_diff_command b p)"
  shows "main argv run1 w = main argv run2 w"
proof (cases "parse_args argv")
  case (SystemExit code)
  then show ?thesis by (simp add: main_parser_exit)
next
  case (Namespace b p)
  with assms have "run1 (git_diff_command b p) = run2 (git_diff_command b p)" by simp
  then have "get_changed_files b p run1 w = get_changed_files b p run2 w"
    by (simp add: get_changed_files_def get_changed_files_try_def)
  with Namespace show ?thesis by (simp add: main_parsed)
qed

text \<open>Two machines that answer every command but the diff differently.\<close>

theorem main_deterministic_witness:
  "machine_one [] \<noteq> machine_two [] \<and>
   machine_one (git_diff_command main_branch feature_x) =
     machine_two (git_diff_command main_branch feature_x) \<and>
   main argv_ok machine_one init_world = main argv_ok machine_two init_world \<and>
   fst (main argv_ok machine_one init_world) = 0"
proof -
  have same: "\<forall>b p. parse_args argv_ok = Namespace b p \<longrightarrow>
      machine_one (git_diff_command b p) = machine_two (git_diff_command b p)"
    by (simp add: machine_one_def machine_two_def)
  have differ: "machine_one [] \<noteq> machine_two []"
    by (simp add: machine_one_def machine_two_def git_diff_command_def)
  have run: "machine_one (git_diff_command main_branch feature_x) =
      Exited 0 (terminated_lines [a_py, b_py]) []"
    by (simp add: machine_one_def)
  have "fst (main argv_ok machine_one init_world) = 0"
    by (simp add: main_parsed Let_def
        get_changed_files_success [where run = machine_one, OF run] splitlines_terminated)
  moreover
  have "machine_one (git_diff_command main_branch feature_x) =
      machine_two (git_diff_command main_branch feature_x)"
    by (simp add: machine_one_def machine_two_def)
  ultimately show ?thesis
    using main_deterministic [OF same, of init_world] differ by simp
qed

subsection \<open>Newlines and blank lines\<close>

text \<open>
  Claim C9. A final newline in the tool's output adds no element: the output
  \<^verbatim>\<open>a\nb\n\<close> counts as 2 files, and an output that ends a non-empty last line with a
  newline gives the same list as the output without that newline. Every line of a
  newline-terminated output is an element, the blank ones as empty strings, and all of
  them count toward the limit of 20.
\<close>

theorem trailing_newline_and_blank_lines:
  assumes "parse_args argv = Namespace base_branch pr_branch"
    and "run (git_diff_command base_branch pr_branch) = Exited 0 out err"
  shows "(out = pystr ''a\<newline>b\<newline>'' \<longrightarrow>
            fst (get_changed_files base_branch pr_branch run w) = [pystr ''a'', pystr ''b''] \<and>
            length (fst (get_changed_files base_branch pr_branch run w)) = 2) \<and>
         (s \<noteq> [] \<and> \<not> is_linebreak (last s) \<and> out = s @ [LF] \<longrightarrow>
            fst (get_changed_files base_branch pr_branch run w) = splitlines s) \<and>
         ((\<forall>l \<in> set ls. no_linebreak l) \<and> out = terminated_lines ls \<longrightarrow>
            fst (get_changed_files base_branch pr_branch run w) = ls \<and>
            count_list (fst (get_changed_files base_branch pr_branch run w)) [] =
              count_list ls [] \<and>
            (fst (main argv run w) = 1 \<longleftrightarrow> length ls > 20))"
proof -
  have files: "fst (get_changed_files base_branch pr_branch run w) = splitlines out"
    using get_changed_files_success [where run = run and w = w, OF assms(2)] by simp
  have code: "fst (main argv run w) = 1 \<longleftrightarrow> length (splitlines out) > 20"
    using assms(1) files by (simp add: main_parsed Let_def)
  have "out = pystr ''a\<newline>b\<newline>'' \<longrightarrow> splitlines out = [pystr ''a'', pystr ''b'']"
    using splitlines_terminated [OF no_linebreak_a_b] by (simp add: a_b_terminated)
  moreover
  have "s \<noteq> [] \<and> \<not> is_linebreak (last s) \<and> out = s @ [LF] \<longrightarrow> splitlines out = splitlines s"
    by (simp add: splitlines_final_newline)
  moreover
  have "(\<forall>l \<in> set ls. no_linebreak l) \<and> out = terminated_lines ls \<longrightarrow> splitlines out = ls"
    by (simp add: splitlines_terminated)
  ultimately show ?thesis
    unfolding files code by auto
qed

text \<open>
  The output \<^verbatim>\<open>a\nb\n\<close>, the same with the newline appended to \<^verbatim>\<open>a\nb\<close>, a blank line
  between two paths, and 21 blank lines, which exceed the limit.
\<close>

theorem trailing_newline_and_blank_lines_witness:
  "fst (get_changed_files main_branch feature_x (tool_prints (pystr ''a\<newline>b\<newline>'')) init_world) =
     [pystr ''a'', pystr ''b''] \<and>
   fst (get_changed_files main_branch feature_x (tool_prints (pystr ''a\<newline>b'' @ [LF])) init_world) =
     splitlines (pystr ''a\<newline>b'') \<and>
   fst (get_changed_files main_branch feature_x
          (tool_prints (terminated_lines [a_py, [], b_py])) init_world) = [a_py, [], b_py] \<and>
   count_list (fst (get_changed_files main_branch feature_x
          (tool_prints (terminated_lines [a_py, [], b_py])) init_world)) [] = 1 \<and>
   fst (main argv_ok (tool_prints (terminated_lines (replicate 21 []))) init_world) = 1"
proof -
  have "fst (get_changed_files main_branch feature_x
          (tool_prints (pystr ''a\<newline>b\<newline>'')) init_world) = [pystr ''a'', pystr ''b'']"
    using trailing_newline_and_blank_lines
      [where run = "tool_prints (pystr ''a\<newline>b\<newline>'')" and w = init_world,
        OF parse_args_argv_ok tool_prints_run]
    by blast
  moreover
  have "pystr ''a\<newline>b'' \<noteq> [] \<and> \<not> is_linebreak (last (pystr ''a\<newline>b''))"
    by (simp add: pystr_def is_linebreak_def)
  then have "fst (get_changed_files main_branch feature_x
          (tool_prints (pystr ''a\<newline>b'' @ [LF])) init_world) = splitlines (pystr ''a\<newline>b'')"
    using trailing_newline_and_blank_lines
      [where run = "tool_prints (pystr ''a\<newline>b'' @ [LF])" and w = init_world
         and s = "pystr ''a\<newline>b''", OF parse_args_argv_ok tool_prints_run]
    by blast
  moreover
  have ne: "a_py \<noteq> []" "b_py \<noteq> []"
    by (simp_all add: a_py_def b_py_def pystr_def)
  have "\<forall>l \<in> set [a_py, [], b_py]. no_linebreak l"
    by simp
  then have "fst (get_changed_files main_branch feature_x
          (tool_prints (terminated_lines [a_py, [], b_py])) init_world) = [a_py, [], b_py] \<and>
        count_list (fst (get_changed_files main_branch feature_x
          (tool_prints (terminated_lines [a_py, [], b_py])) init_world)) [] =
          count_list [a_py, [], b_py] []"
    using trailing_newline_and_blank_lines
      [where run = "tool_prints (terminated_lines [a_py, [], b_py])" and w = init_world
         and ls = "[a_py, [], b_py]", OF parse_args_argv_ok tool_prints_run]
    by blast
  moreover
  have "\<forall>l \<in> set (replicate 21 ([] :: py_str)). no_linebreak l"
    by simp
  then have "fst (main argv_ok (tool_prints (terminated_lines (replicate 21 []))) init_world) = 1"
    using trailing_newline_and_blank_lines
      [where run = "tool_prints (terminated_lines (replicate 21 []))" and w = init_world
         and ls = "replicate 21 []", OF parse_args_argv_ok tool_prints_run]
    by simp
  ultimately show ?thesis
    using ne by simp
qed

subsection \<open>The command\<close>

text \<open>
  Claim C10. \<^verbatim>\<open>get_changed_files\<close> checks nothing about its arguments: for every pair of
  strings, the empty ones included, it spawns exactly one command,
  \<^verbatim>\<open>git diff --name-only origin/<base_branch>...<pr_branch>\<close>, with \<^verbatim>\<open>origin/\<close> before the
  base branch and the PR branch as given, whatever the tool then answers.
\<close>

theorem get_changed_files_command:
  "popen_calls (snd (get_changed_files base_branch pr_branch run w)) =
     popen_calls w @
       [[pystr ''git'', pystr ''diff'', pystr ''--name-only'',
         pystr ''origin/'' @ base_branch @ pystr ''...'' @ pr_branch]] \<and>
   popen_calls (snd (get_changed_files [] [] run w)) =
     popen_calls w @
       [[pystr ''git'', pystr ''diff'', pystr ''--name-only'', pystr ''origin/...'']]"
proof -
  have "popen_calls (snd (get_changed_files b p run w)) = popen_calls w @ [git_diff_command b p]"
    for b p
  proof (cases "run (git_diff_command b p)")
    case (Raised e)
    then show ?thesis by (simp add: get_changed_files_raised print_def)
  next
    case (Exited rc out err)
    then show ?thesis
      by (cases "rc = 0")
         (simp_all add: get_changed_files_nonzero get_changed_files_success print_def)
  qed
  then show ?thesis by (simp add: git_diff_command_def pystr_def)
qed

end
